theory Spec2Isabelle
  imports Complex_Main "HOL-Library.AList" "HOL-Library.Char_ord" "HOL-Library.List_Lexorder"
    "HOL-Library.Multiset"
begin

section \<open>Values, dictionaries and failures\<close>

text \<open>
  The service of \<^verbatim>\<open>main.py\<close> keeps its records in \<^verbatim>\<open>pateints.json\<close>, a JSON object
  from patient ids to JSON objects of fields. The field values are JSON scalars.
  A Python \<^verbatim>\<open>float\<close> is modelled by the rational number it stands for: the arithmetic
  of the model is exact, and infinities, NaN and the rounding error of a binary
  division are outside it.
  A Python \<^verbatim>\<open>dict\<close> with string keys is an association list in insertion order:
  \<^verbatim>\<open>k in d\<close> is \<open>map_of d k \<noteq> None\<close>, \<^verbatim>\<open>d[k] = v\<close> is \<open>AList.update k v d\<close> (in place
  when the key is there, appended otherwise), \<^verbatim>\<open>del d[k]\<close> is \<open>AList.delete k d\<close>.
\<close>

datatype json = JNull | JBool bool | JInt int | JFloat rat | JStr string

type_synonym jdict = "(string \<times> json) list"

type_synonym store = "(string \<times> jdict) list"

text \<open>
  What a request can end in instead of a response: an \<^verbatim>\<open>HTTPException\<close> raised by a
  handler (with its status code), the rejection of a request body by the framework
  before the handler runs, or a Python exception that no handler catches.
\<close>

datatype failure =
    HTTPException nat
  | RequestValidationError
  | ValidationError
  | ZeroDivisionError
  | KeyError
  | TypeError
  | IOError

text \<open>
  The status the framework answers with: the code of an \<^verbatim>\<open>HTTPException\<close>, 422 for a
  body that fails the declared model, 500 for any exception that leaves the handler.
\<close>

fun status_code :: "failure \<Rightarrow> nat" where
  "status_code (HTTPException s) = s"
| "status_code RequestValidationError = 422"
| "status_code _ = 500"

section \<open>The field validators of the two models\<close>

text \<open>
  The conversions pydantic applies to a raw value for a declared field type (its
  default, lax mode). How it reads a number out of a string is the library's own
  parser, taken here as the parameter \<open>L\<close>.
\<close>

record lax =
  str_as_int :: "string \<Rightarrow> int option"
  str_as_float :: "string \<Rightarrow> rat option"

fun str_validator :: "json \<Rightarrow> string option" where
  "str_validator (JStr s) = Some s"
| "str_validator _ = None"

fun int_validator :: "lax \<Rightarrow> json \<Rightarrow> int option" where
  "int_validator L (JInt n) = Some n"
| "int_validator L (JBool b) = Some (if b then 1 else 0)"
| "int_validator L (JFloat r) = (if r = of_int \<lfloor>r\<rfloor> then Some \<lfloor>r\<rfloor> else None)"
| "int_validator L (JStr s) = str_as_int L s"
| "int_validator L JNull = None"

fun float_validator :: "lax \<Rightarrow> json \<Rightarrow> rat option" where
  "float_validator L (JFloat r) = Some r"
| "float_validator L (JInt n) = Some (of_int n)"
| "float_validator L (JBool b) = Some (if b then 1 else 0)"
| "float_validator L (JStr s) = str_as_float L s"
| "float_validator L JNull = None"

text \<open>\<^verbatim>\<open>Literal['male', 'female', 'others']\<close>\<close>

definition genders :: "string list" where
  "genders = [''male'', ''female'', ''others'']"

definition gender_validator :: "json \<Rightarrow> string option" where
  "gender_validator v =
     (case v of JStr s \<Rightarrow> (if s \<in> set genders then Some s else None) | _ \<Rightarrow> None)"

text \<open>The constraint \<^verbatim>\<open>gt=0\<close> of a \<^verbatim>\<open>Field\<close>.\<close>

definition gt0 :: "'a::{zero,ord} option \<Rightarrow> 'a option" where
  "gt0 x = (case x of Some v \<Rightarrow> (if 0 < v then Some v else None) | None \<Rightarrow> None)"

section \<open>The model Pateint and its computed fields\<close>

record Pateint =
  id_str :: string
  name :: string
  city :: string
  age :: int
  gender :: string
  height :: rat
  weight :: rat

text \<open>
  \<^verbatim>\<open>Pateint(**d)\<close>, and the validation of the body of \<^verbatim>\<open>POST /create\<close>: every field is
  required; \<^verbatim>\<open>height\<close> and \<^verbatim>\<open>weight\<close> carry \<^verbatim>\<open>gt=0\<close>; keys that are no field
  of the model are ignored. Any violation raises pydantic's \<^verbatim>\<open>ValidationError\<close>.
\<close>

definition required :: "jdict \<Rightarrow> string \<Rightarrow> (json \<Rightarrow> 'a option) \<Rightarrow> 'a option" where
  "required d k validator = (case map_of d k of None \<Rightarrow> None | Some v \<Rightarrow> validator v)"

definition Pateint_init :: "lax \<Rightarrow> jdict \<Rightarrow> failure + Pateint" where
  "Pateint_init L d =
     (case required d ''id'' str_validator of None \<Rightarrow> Inl ValidationError | Some i \<Rightarrow>
     (case required d ''name'' str_validator of None \<Rightarrow> Inl ValidationError | Some n \<Rightarrow>
     (case required d ''city'' str_validator of None \<Rightarrow> Inl ValidationError | Some c \<Rightarrow>
     (case required d ''age'' (int_validator L) of None \<Rightarrow> Inl ValidationError | Some a \<Rightarrow>
     (case required d ''gender'' gender_validator of None \<Rightarrow> Inl ValidationError | Some g \<Rightarrow>
     (case gt0 (required d ''height'' (float_validator L)) of None \<Rightarrow> Inl ValidationError | Some h \<Rightarrow>
     (case gt0 (required d ''weight'' (float_validator L)) of None \<Rightarrow> Inl ValidationError | Some w \<Rightarrow>
      Inr \<lparr>id_str = i, name = n, city = c, age = a, gender = g, height = h, weight = w\<rparr>)))))))"

text \<open>
  Python's \<^verbatim>\<open>round(x, n)\<close> on the exact value: to the nearest multiple of \<open>10\<^sup>-\<^sup>n\<close>,
  a tie going to the even one.
\<close>

definition round_half_even :: "rat \<Rightarrow> int" where
  "round_half_even x =
     (let f = \<lfloor>x\<rfloor>; d = x - of_int f
      in if d < 1 / 2 then f else if 1 / 2 < d then f + 1 else if even f then f else f + 1)"

definition py_round :: "rat \<Rightarrow> nat \<Rightarrow> rat" where
  "py_round x n = of_int (round_half_even (x * 10 ^ n)) / 10 ^ n"

text \<open>
  \<^verbatim>\<open>bmi = round(self.weight / ((self.height / 100) ** 2), 2)\<close>; a float division by
  zero raises \<^verbatim>\<open>ZeroDivisionError\<close>.
\<close>

definition bmi :: "Pateint \<Rightarrow> failure + rat" where
  "bmi p =
     (let d = (height p / 100) ^ 2
      in if d = 0 then Inl ZeroDivisionError else Inr (py_round (weight p / d) 2))"

definition verdict :: "Pateint \<Rightarrow> failure + string" where
  "verdict p =
     (case bmi p of Inl e \<Rightarrow> Inl e
      | Inr b \<Rightarrow>
          Inr (if b < 18.5 then ''Underweight''
               else if 18.5 \<le> b \<and> b < 24.9 then ''Normal weight''
               else if 25 \<le> b \<and> b < 29.9 then ''Overweight''
               else ''Obesity''))"

text \<open>
  \<^verbatim>\<open>model_dump(exclude=['id'])\<close>: the declared fields but \<^verbatim>\<open>id\<close>, in their order,
  followed by the computed fields \<^verbatim>\<open>bmi\<close> and \<^verbatim>\<open>verdict\<close>.
\<close>

definition model_dump_exclude_id :: "Pateint \<Rightarrow> failure + jdict" where
  "model_dump_exclude_id p =
     (case bmi p of Inl e \<Rightarrow> Inl e | Inr b \<Rightarrow>
     (case verdict p of Inl e \<Rightarrow> Inl e | Inr v \<Rightarrow>
      Inr [(''name'', JStr (name p)), (''city'', JStr (city p)), (''age'', JInt (age p)),
           (''gender'', JStr (gender p)), (''height'', JFloat (height p)),
           (''weight'', JFloat (weight p)), (''bmi'', JFloat b), (''verdict'', JStr v)]))"

section \<open>The model PateintUpdate\<close>

text \<open>
  Every field is optional with default \<^verbatim>\<open>None\<close>; \<^verbatim>\<open>age\<close>, \<^verbatim>\<open>height\<close> and \<^verbatim>\<open>weight\<close>
  carry \<^verbatim>\<open>gt=0\<close>. A field of an instance is \<open>None\<close> when the body did not set it,
  \<open>Some None\<close> when the body set it to \<^verbatim>\<open>null\<close>, \<open>Some (Some v)\<close> otherwise: pydantic
  records which fields were set, and \<^verbatim>\<open>model_dump(exclude_unset=True)\<close> reads it.
\<close>

record PateintUpdate =
  name_upd :: "string option option"
  city_upd :: "string option option"
  age_upd :: "int option option"
  gender_upd :: "string option option"
  height_upd :: "rat option option"
  weight_upd :: "rat option option"

definition optional :: "jdict \<Rightarrow> string \<Rightarrow> (json \<Rightarrow> 'a option) \<Rightarrow> 'a option option option" where
  "optional d k validator =
     (case map_of d k of
        None \<Rightarrow> Some None
      | Some JNull \<Rightarrow> Some (Some None)
      | Some v \<Rightarrow> (case validator v of None \<Rightarrow> None | Some x \<Rightarrow> Some (Some (Some x))))"

definition PateintUpdate_init :: "lax \<Rightarrow> jdict \<Rightarrow> failure + PateintUpdate" where
  "PateintUpdate_init L d =
     (case optional d ''name'' str_validator of None \<Rightarrow> Inl ValidationError | Some n \<Rightarrow>
     (case optional d ''city'' str_validator of None \<Rightarrow> Inl ValidationError | Some c \<Rightarrow>
     (case optional d ''age'' (\<lambda>v. gt0 (int_validator L v)) of None \<Rightarrow> Inl ValidationError | Some a \<Rightarrow>
     (case optional d ''gender'' gender_validator of None \<Rightarrow> Inl ValidationError | Some g \<Rightarrow>
     (case optional d ''height'' (\<lambda>v. gt0 (float_validator L v)) of None \<Rightarrow> Inl ValidationError | Some h \<Rightarrow>
     (case optional d ''weight'' (\<lambda>v. gt0 (float_validator L v)) of None \<Rightarrow> Inl ValidationError | Some w \<Rightarrow>
      Inr \<lparr>name_upd = n, city_upd = c, age_upd = a, gender_upd = g, height_upd = h, weight_upd = w\<rparr>))))))"

definition dump_field :: "string \<Rightarrow> ('a \<Rightarrow> json) \<Rightarrow> 'a option option \<Rightarrow> jdict" where
  "dump_field k to_json x =
     (case x of None \<Rightarrow> [] | Some None \<Rightarrow> [(k, JNull)] | Some (Some v) \<Rightarrow> [(k, to_json v)])"

definition model_dump_exclude_unset :: "PateintUpdate \<Rightarrow> jdict" where
  "model_dump_exclude_unset u =
     dump_field ''name'' JStr (name_upd u) @ dump_field ''city'' JStr (city_upd u) @
     dump_field ''age'' JInt (age_upd u) @ dump_field ''gender'' JStr (gender_upd u) @
     dump_field ''height'' JFloat (height_upd u) @ dump_field ''weight'' JFloat (weight_upd u)"

section \<open>The file and the handlers\<close>

text \<open>
  The state is the content of \<^verbatim>\<open>pateints.json\<close>: \<open>None\<close> when the file cannot be
  opened or parsed, so that \<^verbatim>\<open>load_data\<close> raises. Every handler takes the file and
  returns it with its result; \<^verbatim>\<open>save_data\<close> replaces the whole content.
\<close>

type_synonym json_file = "store option"

definition load_data :: "json_file \<Rightarrow> failure + store" where
  "load_data f = (case f of None \<Rightarrow> Inl IOError | Some data \<Rightarrow> Inr data)"

definition save_data :: "store \<Rightarrow> json_file" where
  "save_data data = Some data"

datatype response = JSONResponse nat string

definition view :: "json_file \<Rightarrow> failure + store" where
  "view f = load_data f"

definition view_pateint :: "json_file \<Rightarrow> string \<Rightarrow> failure + jdict" where
  "view_pateint f pateint_id =
     (case load_data f of Inl e \<Rightarrow> Inl e
      | Inr data \<Rightarrow>
          (case map_of data pateint_id of Some v \<Rightarrow> Inr v | None \<Rightarrow> Inl (HTTPException 404)))"

definition create_pateint :: "json_file \<Rightarrow> Pateint \<Rightarrow> (failure + response) \<times> json_file" where
  "create_pateint f pateint =
     (case load_data f of Inl e \<Rightarrow> (Inl e, f)
      | Inr data \<Rightarrow>
          if map_of data (id_str pateint) \<noteq> None then (Inl (HTTPException 400), f)
          else (case model_dump_exclude_id pateint of Inl e \<Rightarrow> (Inl e, f)
                | Inr v \<Rightarrow>
                    (Inr (JSONResponse 201 ''Pateint created successfully''),
                     save_data (AList.update (id_str pateint) v data))))"

text \<open>
  The loop of \<^verbatim>\<open>update_pateint\<close>:
  \<^verbatim>\<open>for key, value in updated_pateint_info.items(): if value is not None: existing_pateint_info[key] = value\<close>
\<close>

fun merge_items :: "jdict \<Rightarrow> jdict \<Rightarrow> jdict" where
  "merge_items existing [] = existing"
| "merge_items existing ((key, v) # items) =
     merge_items (if v \<noteq> JNull then AList.update key v existing else existing) items"

text \<open>
  The handler changes the loaded dictionary in memory and writes the file only in
  its last step, after \<^verbatim>\<open>Pateint(**existing_pateint_info)\<close> and \<^verbatim>\<open>model_dump\<close> have
  returned; an exception before that leaves the file as it was.
\<close>

definition update_pateint :: "lax \<Rightarrow> json_file \<Rightarrow> string \<Rightarrow> PateintUpdate \<Rightarrow> (failure + response) \<times> json_file" where
  "update_pateint L f pateint_id pateint_update =
     (case load_data f of Inl e \<Rightarrow> (Inl e, f)
      | Inr data \<Rightarrow>
          (case map_of data pateint_id of None \<Rightarrow> (Inl (HTTPException 404), f)
           | Some existing_pateint_info \<Rightarrow>
               (let updated_pateint_info = model_dump_exclude_unset pateint_update;
                    merged = merge_items existing_pateint_info updated_pateint_info;
                    with_id = AList.update ''id'' (JStr pateint_id) merged
                in case Pateint_init L with_id of Inl e \<Rightarrow> (Inl e, f)
                   | Inr pateint_pydantic_obj \<Rightarrow>
                       (case model_dump_exclude_id pateint_pydantic_obj of Inl e \<Rightarrow> (Inl e, f)
                        | Inr v \<Rightarrow>
                            (Inr (JSONResponse 200 ''Pateint updated successfully''),
                             save_data (AList.update pateint_id v data))))))"

definition delete_pateint :: "json_file \<Rightarrow> string \<Rightarrow> (failure + response) \<times> json_file" where
  "delete_pateint f pateint_id =
     (case load_data f of Inl e \<Rightarrow> (Inl e, f)
      | Inr data \<Rightarrow>
          if map_of data pateint_id = None then (Inl (HTTPException 404), f)
          else (Inr (JSONResponse 200 ''Pateint deleted successfully''),
                save_data (AList.delete pateint_id data)))"

text \<open>
  The two routes with a body: the framework validates the body against the declared
  model before it calls the handler, and answers 422 itself when that fails.
\<close>

definition POST_create :: "lax \<Rightarrow> json_file \<Rightarrow> jdict \<Rightarrow> (failure + response) \<times> json_file" where
  "POST_create L f body =
     (case Pateint_init L body of Inl e \<Rightarrow> (Inl RequestValidationError, f)
      | Inr pateint \<Rightarrow> create_pateint f pateint)"

definition PUT_edit :: "lax \<Rightarrow> json_file \<Rightarrow> string \<Rightarrow> jdict \<Rightarrow> (failure + response) \<times> json_file" where
  "PUT_edit L f pateint_id body =
     (case PateintUpdate_init L body of Inl e \<Rightarrow> (Inl RequestValidationError, f)
      | Inr pateint_update \<Rightarrow> update_pateint L f pateint_id pateint_update)"

section \<open>Sorting\<close>

text \<open>
  \<^verbatim>\<open>sorted(data.values(), key=lambda x: x[sort_by], reverse=...)\<close>. Python computes the
  key of every element first (\<^verbatim>\<open>x[sort_by]\<close> raises \<^verbatim>\<open>KeyError\<close> on a record without
  the field), then sorts stably with \<^verbatim>\<open><\<close> on the keys. Numbers (\<^verbatim>\<open>bool\<close> among them)
  compare by value, strings with strings lexicographically; any other comparison
  raises \<^verbatim>\<open>TypeError\<close>, and a list of two or more elements cannot be sorted without
  comparing every element with another one. With \<^verbatim>\<open>reverse=True\<close> the list is
  reversed, sorted and reversed again, which keeps equal keys in their first order.
\<close>

fun getitem :: "jdict \<Rightarrow> string \<Rightarrow> failure + json" where
  "getitem x k = (case map_of x k of None \<Rightarrow> Inl KeyError | Some v \<Rightarrow> Inr v)"

fun keys_of :: "jdict list \<Rightarrow> string \<Rightarrow> failure + json list" where
  "keys_of [] k = Inr []"
| "keys_of (x # xs) k =
     (case getitem x k of Inl e \<Rightarrow> Inl e
      | Inr v \<Rightarrow> (case keys_of xs k of Inl e \<Rightarrow> Inl e | Inr vs \<Rightarrow> Inr (v # vs)))"

fun is_number :: "json \<Rightarrow> bool" where
  "is_number (JInt n) = True"
| "is_number (JFloat r) = True"
| "is_number (JBool b) = True"
| "is_number _ = False"

fun number_of :: "json \<Rightarrow> rat" where
  "number_of (JInt n) = of_int n"
| "number_of (JFloat r) = r"
| "number_of (JBool b) = (if b then 1 else 0)"
| "number_of _ = 0"

fun is_str :: "json \<Rightarrow> bool" where
  "is_str (JStr s) = True"
| "is_str _ = False"

fun str_of :: "json \<Rightarrow> string" where
  "str_of (JStr s) = s"
| "str_of _ = []"

definition stable_sorted :: "'k::linorder list \<Rightarrow> 'a list \<Rightarrow> bool \<Rightarrow> 'a list" where
  "stable_sorted ks xs reverse =
     (if reverse then rev (map snd (sort_key fst (rev (zip ks xs))))
      else map snd (sort_key fst (zip ks xs)))"

definition py_sorted :: "jdict list \<Rightarrow> string \<Rightarrow> bool \<Rightarrow> failure + jdict list" where
  "py_sorted xs k reverse =
     (case keys_of xs k of Inl e \<Rightarrow> Inl e
      | Inr ks \<Rightarrow>
          if length ks < 2 then Inr xs
          else if list_all is_number ks then Inr (stable_sorted (map number_of ks) xs reverse)
          else if list_all is_str ks then Inr (stable_sorted (map str_of ks) xs reverse)
          else Inl TypeError)"

definition valid_fields :: "string list" where
  "valid_fields = [''height'', ''weight'', ''bmi'']"

definition sort_patients :: "json_file \<Rightarrow> string \<Rightarrow> string \<Rightarrow> failure + jdict list" where
  "sort_patients f sort_by order =
     (if sort_by \<notin> set valid_fields then Inl (HTTPException 400)
      else if order \<notin> set [''asc'', ''desc''] then Inl (HTTPException 400)
      else (case load_data f of Inl e \<Rightarrow> Inl e
            | Inr data \<Rightarrow>
                (let sort_order = (if order = ''desc'' then False else True)
                 in case py_sorted (map snd data) sort_by (\<not> sort_order) of
                      Inl e \<Rightarrow> Inl (HTTPException 500)
                    | Inr sorted_data \<Rightarrow> Inr sorted_data)))"

text \<open>
  The number a record holds under a field, by which the sorted view is stated.
\<close>

definition field_number :: "string \<Rightarrow> jdict \<Rightarrow> rat" where
  "field_number k x = (case map_of x k of Some v \<Rightarrow> number_of v | None \<Rightarrow> 0)"

section \<open>Example values\<close>

text \<open>
  The examples of the \<^verbatim>\<open>Field\<close> declarations (\<^verbatim>\<open>P001\<close>, \<^verbatim>\<open>Harsh\<close>, \<^verbatim>\<open>Delhi\<close>, 30), at a
  given height and weight; a request body that gives every field of \<^verbatim>\<open>Pateint\<close> a
  value of its declared type; and a string parser that reads no number out of any
  string, for the examples in which no numeric field holds a string.
\<close>

definition example_pateint :: "rat \<Rightarrow> rat \<Rightarrow> Pateint" where
  "example_pateint h w =
     \<lparr>id_str = ''P001'', name = ''Harsh'', city = ''Delhi'', age = 30, gender = ''male'',
      height = h, weight = w\<rparr>"

definition fields_body ::
  "string \<Rightarrow> string \<Rightarrow> string \<Rightarrow> int \<Rightarrow> string \<Rightarrow> rat \<Rightarrow> rat \<Rightarrow> jdict" where
  "fields_body i n c a g h w =
     [(''id'', JStr i), (''name'', JStr n), (''city'', JStr c), (''age'', JInt a),
      (''gender'', JStr g), (''height'', JFloat h), (''weight'', JFloat w)]"

definition no_str_numbers :: lax where
  "no_str_numbers = \<lparr>str_as_int = (\<lambda>s. None), str_as_float = (\<lambda>s. None)\<rparr>"

text \<open>
  A stored value as \<^verbatim>\<open>create_pateint\<close> writes it for the example record of height 175.5
  and weight 70, living in a given city; a stored value that lacks the weight, as a
  file edited by hand can hold; and the update that sets the city alone.
\<close>

definition example_record :: "string \<Rightarrow> jdict" where
  "example_record c =
     [(''name'', JStr ''Harsh''), (''city'', JStr c), (''age'', JInt 30),
      (''gender'', JStr ''male''), (''height'', JFloat 175.5), (''weight'', JFloat 70),
      (''bmi'', JFloat 22.73), (''verdict'', JStr ''Normal weight'')]"

definition incomplete_record :: jdict where
  "incomplete_record =
     [(''name'', JStr ''Harsh''), (''city'', JStr ''Delhi''), (''age'', JInt 30),
      (''gender'', JStr ''male''), (''height'', JFloat 175.5)]"

definition only_city :: "string \<Rightarrow> PateintUpdate" where
  "only_city c =
     \<lparr>name_upd = None, city_upd = Some (Some c), age_upd = None, gender_upd = None,
      height_upd = None, weight_upd = None\<rparr>"

text \<open>
  Records that hold a name and a height, two of them of the same height; and a stored
  value of the six declared fields alone, without the computed ones.
\<close>

definition named_height :: "string \<Rightarrow> rat \<Rightarrow> jdict" where
  "named_height n h = [(''name'', JStr n), (''height'', JFloat h)]"

definition heights_store :: store where
  "heights_store =
     [(''P001'', named_height ''A'' 150), (''P002'', named_height ''B'' 180),
      (''P003'', named_height ''C'' 160), (''P004'', named_height ''D'' 180)]"

definition six_fields_record :: jdict where
  "six_fields_record =
     [(''name'', JStr ''Harsh''), (''city'', JStr ''Delhi''), (''age'', JInt 30),
      (''gender'', JStr ''male''), (''height'', JFloat 175.5), (''weight'', JFloat 70)]"

section \<open>The computed fields\<close>




lemma bmi_nonzero_height:
  "height p \<noteq> 0 \<Longrightarrow> bmi p = Inr (py_round (weight p / (height p / 100)\<^sup>2) 2)"
  by (simp add: bmi_def Let_def)


text \<open>
  Claim C1. For every record whose BMI is computed, \<^verbatim>\<open>verdict\<close> follows the boundary
  table: below 18.5 it is "Underweight"; from 18.5 up to, but excluding, 24.9 it is
  "Normal weight"; from 25 up to, but excluding, 29.9 it is "Overweight"; everywhere
  else, that is in the gap from 24.9 to 25 and from 29.9 on, it is "Obesity".
\<close>

theorem verdict_boundary_table:
  assumes "bmi p = Inr b"
  shows "(b < 18.5 \<longrightarrow> verdict p = Inr ''Underweight'') \<and>
         (18.5 \<le> b \<and> b < 24.9 \<longrightarrow> verdict p = Inr ''Normal weight'') \<and>
         (25 \<le> b \<and> b < 29.9 \<longrightarrow> verdict p = Inr ''Overweight'') \<and>
         (24.9 \<le> b \<and> b < 25 \<or> 29.9 \<le> b \<longrightarrow> verdict p = Inr ''Obesity'')"
  using assms by (auto simp: verdict_def)

text \<open>
  The seven boundary values of the specification, on records of height 100, whose
  BMI is their weight.
\<close>

theorem verdict_boundary_table_witness:
  "verdict (example_pateint 100 18.49) = Inr ''Underweight'' \<and>
   verdict (example_pateint 100 18.5) = Inr ''Normal weight'' \<and>
   verdict (example_pateint 100 24.89) = Inr ''Normal weight'' \<and>
   verdict (example_pateint 100 24.9) = Inr ''Obesity'' \<and>
   verdict (example_pateint 100 25) = Inr ''Overweight'' \<and>
   verdict (example_pateint 100 29.89) = Inr ''Overweight'' \<and>
   verdict (example_pateint 100 29.9) = Inr ''Obesity''"
proof -
  have b1: "bmi (example_pateint 100 18.49) = Inr 18.49" by code_simp
  have b2: "bmi (example_pateint 100 18.5) = Inr 18.5" by code_simp
  have b3: "bmi (example_pateint 100 24.89) = Inr 24.89" by code_simp
  have b4: "bmi (example_pateint 100 24.9) = Inr 24.9" by code_simp
  have b5: "bmi (example_pateint 100 25) = Inr 25" by code_simp
  have b6: "bmi (example_pateint 100 29.89) = Inr 29.89" by code_simp
  have b7: "bmi (example_pateint 100 29.9) = Inr 29.9" by code_simp
  show ?thesis
    using verdict_boundary_table [OF b1] verdict_boundary_table [OF b2]
      verdict_boundary_table [OF b3] verdict_boundary_table [OF b4]
      verdict_boundary_table [OF b5] verdict_boundary_table [OF b6]
      verdict_boundary_table [OF b7]
    by simp
qed



section \<open>Validation\<close>


lemma Pateint_init_Inr:
  "Pateint_init L d = Inr p \<longleftrightarrow>
     required d ''id'' str_validator = Some (id_str p) \<and>
     required d ''name'' str_validator = Some (name p) \<and>
     required d ''city'' str_validator = Some (city p) \<and>
     required d ''age'' (int_validator L) = Some (age p) \<and>
     required d ''gender'' gender_validator = Some (gender p) \<and>
     gt0 (required d ''height'' (float_validator L)) = Some (height p) \<and>
     gt0 (required d ''weight'' (float_validator L)) = Some (weight p)"
  unfolding Pateint_init_def by (cases p) (auto split: option.splits)

lemma Pateint_init_Inl: "Pateint_init L d = Inl e \<Longrightarrow> e = ValidationError"
  unfolding Pateint_init_def by (auto split: option.splits)


lemma Pateint_init_missing:
  assumes "map_of d k = None"
    and "k \<in> {''id'', ''name'', ''city'', ''age'', ''gender'', ''height'', ''weight''}"
  shows "Pateint_init L d = Inl ValidationError"
proof (cases "Pateint_init L d")
  case (Inl e)
  then show ?thesis using Pateint_init_Inl by blast
next
  case (Inr p)
  note f = Inr [unfolded Pateint_init_Inr]
  have "k = ''id'' \<or> k = ''name'' \<or> k = ''city'' \<or> k = ''age'' \<or> k = ''gender''
    \<or> k = ''height'' \<or> k = ''weight''"
    using assms(2) by (simp only: insert_iff empty_iff simp_thms)
  then have False
  proof (elim disjE)
    assume "k = ''id''" then show False using f assms(1) by (simp add: required_def)
  next
    assume "k = ''name''" then show False using f assms(1) by (simp add: required_def)
  next
    assume "k = ''city''" then show False using f assms(1) by (simp add: required_def)
  next
    assume "k = ''age''" then show False using f assms(1) by (simp add: required_def)
  next
    assume "k = ''gender''" then show False using f assms(1) by (simp add: required_def)
  next
    assume "k = ''height''" then show False using f assms(1) by (simp add: required_def gt0_def)
  next
    assume "k = ''weight''" then show False using f assms(1) by (simp add: required_def gt0_def)
  qed
  then show ?thesis ..
qed




text \<open>
  Claim C3, as the code has it. For every full field set with a positive age,
  \<^verbatim>\<open>Pateint(...)\<close> returns the record exactly when the gender is one of male, female
  and others and the height and the weight are positive, whatever the name and the
  city, the empty string included; otherwise it raises \<^verbatim>\<open>ValidationError\<close>. The
  gender "other" is always refused, and so is a field set in which a field is
  missing.
\<close>

theorem Pateint_init_accepts_iff:
  assumes "0 < a"
  shows "(Pateint_init L (fields_body i n c a g h w) =
           (if g \<in> {''male'', ''female'', ''others''} \<and> 0 < h \<and> 0 < w
            then Inr \<lparr>id_str = i, name = n, city = c, age = a, gender = g, height = h, weight = w\<rparr>
            else Inl ValidationError)) \<and>
         Pateint_init L (fields_body i n c a ''other'' h w) = Inl ValidationError \<and>
         (\<forall>k \<in> {''id'', ''name'', ''city'', ''age'', ''gender'', ''height'', ''weight''}.
            \<forall>d. map_of d k = None \<longrightarrow> Pateint_init L d = Inl ValidationError)"
proof -
  have A: "Pateint_init L (fields_body i n c a g h w) =
           (if g \<in> {''male'', ''female'', ''others''} \<and> 0 < h \<and> 0 < w
            then Inr \<lparr>id_str = i, name = n, city = c, age = a, gender = g, height = h, weight = w\<rparr>
            else Inl ValidationError)"
    by (simp add: Pateint_init_def fields_body_def required_def gender_validator_def
        genders_def gt0_def)
  have B: "Pateint_init L (fields_body i n c a ''other'' h w) = Inl ValidationError"
    by (simp add: Pateint_init_def fields_body_def required_def gender_validator_def
        genders_def gt0_def)
  show ?thesis
  proof (intro conjI ballI allI impI)
    fix k and d :: jdict
    assume "k \<in> {''id'', ''name'', ''city'', ''age'', ''gender'', ''height'', ''weight''}"
      and "map_of d k = None"
    then show "Pateint_init L d = Inl ValidationError"
      by (rule Pateint_init_missing [rotated])
  qed (rule A, rule B)
qed

theorem Pateint_init_accepts_iff_witness:
  "(0::int) < 30 \<and>
   Pateint_init no_str_numbers (fields_body ''P001'' ''Harsh'' ''Delhi'' 30 ''male'' 175.5 70)
     = Inr (example_pateint 175.5 70) \<and>
   Pateint_init no_str_numbers (fields_body ''P001'' ''Harsh'' ''Delhi'' 30 ''male'' 0 70)
     = Inl ValidationError \<and>
   Pateint_init no_str_numbers (fields_body ''P001'' ''Harsh'' ''Delhi'' 30 ''other'' 175.5 70)
     = Inl ValidationError \<and>
   map_of ([] :: jdict) ''weight'' = None \<and>
   Pateint_init no_str_numbers [] = Inl ValidationError"
proof -
  have a: "(0::int) < 30" by simp
  note t = Pateint_init_accepts_iff [OF a, where L = no_str_numbers and i = "''P001''"
      and n = "''Harsh''" and c = "''Delhi''" and w = 70]
  have "Pateint_init no_str_numbers (fields_body ''P001'' ''Harsh'' ''Delhi'' 30 ''male'' 175.5 70)
     = Inr (example_pateint 175.5 70)"
    using t [where g = "''male''" and h = "175.5", THEN conjunct1] by (simp add: example_pateint_def)
  moreover have "Pateint_init no_str_numbers (fields_body ''P001'' ''Harsh'' ''Delhi'' 30 ''male'' 0 70)
     = Inl ValidationError"
    using t [where g = "''male''" and h = 0, THEN conjunct1] by simp
  moreover have "Pateint_init no_str_numbers (fields_body ''P001'' ''Harsh'' ''Delhi'' 30 ''other'' 175.5 70)
     = Inl ValidationError"
    using t [where g = "''male''" and h = "175.5", THEN conjunct2, THEN conjunct1] .
  moreover have "Pateint_init no_str_numbers [] = Inl ValidationError"
    using t [where g = "''male''" and h = "175.5", THEN conjunct2, THEN conjunct2, rule_format,
        of "''weight''" "[]"]
    by simp
  ultimately show ?thesis by simp
qed

text \<open>
  A full field set with an empty name, an empty city and the gender "others" is
  accepted.
\<close>

theorem Pateint_init_empty_name_counterexample:
  "Pateint_init no_str_numbers (fields_body ''P001'' '''' '''' 30 ''others'' 175.5 70)
     = Inr \<lparr>id_str = ''P001'', name = '''', city = '''', age = 30, gender = ''others'',
            height = 175.5, weight = 70\<rparr>"
  by code_simp

section \<open>What the handlers write\<close>

lemma model_dump_Inr:
  "model_dump_exclude_id p = Inr x \<longleftrightarrow>
     (\<exists>b s. bmi p = Inr b \<and> verdict p = Inr s \<and>
        x = [(''name'', JStr (name p)), (''city'', JStr (city p)), (''age'', JInt (age p)),
             (''gender'', JStr (gender p)), (''height'', JFloat (height p)),
             (''weight'', JFloat (weight p)), (''bmi'', JFloat b), (''verdict'', JStr s)])"
  unfolding model_dump_exclude_id_def by (auto split: sum.splits)

lemma verdict_Inr: "bmi p = Inr b \<Longrightarrow> \<exists>s. verdict p = Inr s"
  by (simp add: verdict_def)

lemma model_dump_total:
  assumes "0 < height p"
  shows "\<exists>x. model_dump_exclude_id p = Inr x"
proof -
  have "height p \<noteq> 0" using assms by simp
  then obtain b where b: "bmi p = Inr b" using bmi_nonzero_height by blast
  then obtain s where "verdict p = Inr s" using verdict_Inr by blast
  with b show ?thesis unfolding model_dump_Inr by blast
qed

lemma required_update:
  "required (AList.update k v d) k' val = (if k' = k then val v else required d k' val)"
  by (simp add: required_def update_conv')


lemma Pateint_init_id:
  "Pateint_init L (AList.update ''id'' (JStr i) d) = Inr p \<Longrightarrow> id_str p = i"
  unfolding Pateint_init_Inr required_update by simp



lemma create_pateint_Inr:
  assumes "create_pateint f p = (Inr r, f')"
  shows "\<exists>data v. f = Some data \<and> map_of data (id_str p) = None \<and>
           model_dump_exclude_id p = Inr v \<and>
           r = JSONResponse 201 ''Pateint created successfully'' \<and>
           f' = Some (AList.update (id_str p) v data)"
  using assms unfolding create_pateint_def load_data_def save_data_def
  by (auto split: option.splits sum.splits if_splits)

lemma update_pateint_Inr:
  assumes "update_pateint L f i u = (Inr r, f')"
  shows "\<exists>data x q v. f = Some data \<and> map_of data i = Some x \<and>
           Pateint_init L (AList.update ''id'' (JStr i)
             (merge_items x (model_dump_exclude_unset u))) = Inr q \<and>
           model_dump_exclude_id q = Inr v \<and>
           r = JSONResponse 200 ''Pateint updated successfully'' \<and>
           f' = Some (AList.update i v data)"
  using assms unfolding update_pateint_def load_data_def save_data_def Let_def
  by (auto split: option.splits sum.splits)

lemma view_pateint_update:
  "view_pateint (Some (AList.update i v data)) i = Inr v"
  by (simp add: view_pateint_def load_data_def update_conv')

text \<open>
  Claim C4, as the code has it. After every successful \<^verbatim>\<open>create_pateint\<close> and
  \<^verbatim>\<open>update_pateint\<close>, the value stored under the id holds exactly the eight fields
  name, city, age, gender, height, weight, bmi and verdict, in this order and without
  the id, where bmi and verdict are the computed fields of the record that was
  written; \<^verbatim>\<open>view_pateint\<close> returns that stored value as it is.
\<close>

theorem persisted_value_fields:
  "(create_pateint f p = (Inr r, f') \<longrightarrow>
      (\<exists>data v b s. f' = Some data \<and> map_of data (id_str p) = Some v \<and>
         view_pateint f' (id_str p) = Inr v \<and> bmi p = Inr b \<and> verdict p = Inr s \<and>
         v = [(''name'', JStr (name p)), (''city'', JStr (city p)), (''age'', JInt (age p)),
              (''gender'', JStr (gender p)), (''height'', JFloat (height p)),
              (''weight'', JFloat (weight p)), (''bmi'', JFloat b), (''verdict'', JStr s)])) \<and>
   (update_pateint L f i u = (Inr r, f') \<longrightarrow>
      (\<exists>data v q b s. f' = Some data \<and> map_of data i = Some v \<and>
         view_pateint f' i = Inr v \<and> id_str q = i \<and> bmi q = Inr b \<and> verdict q = Inr s \<and>
         v = [(''name'', JStr (name q)), (''city'', JStr (city q)), (''age'', JInt (age q)),
              (''gender'', JStr (gender q)), (''height'', JFloat (height q)),
              (''weight'', JFloat (weight q)), (''bmi'', JFloat b), (''verdict'', JStr s)]))"
proof (intro conjI impI)
  assume "create_pateint f p = (Inr r, f')"
  then obtain data v where v: "model_dump_exclude_id p = Inr v"
    and f': "f' = Some (AList.update (id_str p) v data)"
    using create_pateint_Inr by blast
  have "map_of (AList.update (id_str p) v data) (id_str p) = Some v"
    by (simp add: update_conv')
  moreover have "view_pateint f' (id_str p) = Inr v"
    unfolding f' by (rule view_pateint_update)
  ultimately show "\<exists>data v b s. f' = Some data \<and> map_of data (id_str p) = Some v \<and>
         view_pateint f' (id_str p) = Inr v \<and> bmi p = Inr b \<and> verdict p = Inr s \<and>
         v = [(''name'', JStr (name p)), (''city'', JStr (city p)), (''age'', JInt (age p)),
              (''gender'', JStr (gender p)), (''height'', JFloat (height p)),
              (''weight'', JFloat (weight p)), (''bmi'', JFloat b), (''verdict'', JStr s)]"
    using v f' unfolding model_dump_Inr by blast
next
  assume "update_pateint L f i u = (Inr r, f')"
  then obtain data x q v where
    q: "Pateint_init L (AList.update ''id'' (JStr i)
             (merge_items x (model_dump_exclude_unset u))) = Inr q"
    and v: "model_dump_exclude_id q = Inr v"
    and f': "f' = Some (AList.update i v data)"
    using update_pateint_Inr by blast
  have "map_of (AList.update i v data) i = Some v"
    by (simp add: update_conv')
  moreover have "view_pateint f' i = Inr v"
    unfolding f' by (rule view_pateint_update)
  moreover have "id_str q = i"
    using q by (rule Pateint_init_id)
  ultimately show "\<exists>data v q b s. f' = Some data \<and> map_of data i = Some v \<and>
         view_pateint f' i = Inr v \<and> id_str q = i \<and> bmi q = Inr b \<and> verdict q = Inr s \<and>
         v = [(''name'', JStr (name q)), (''city'', JStr (city q)), (''age'', JInt (age q)),
              (''gender'', JStr (gender q)), (''height'', JFloat (height q)),
              (''weight'', JFloat (weight q)), (''bmi'', JFloat b), (''verdict'', JStr s)]"
    using v f' unfolding model_dump_Inr by blast
qed

text \<open>
  Creating the example record in an empty file stores \<^verbatim>\<open>bmi\<close> and \<^verbatim>\<open>verdict\<close> with it.
\<close>

theorem persisted_value_counterexample:
  "create_pateint (Some []) (example_pateint 175.5 70) =
     (Inr (JSONResponse 201 ''Pateint created successfully''),
      Some [(''P001'',
             [(''name'', JStr ''Harsh''), (''city'', JStr ''Delhi''), (''age'', JInt 30),
              (''gender'', JStr ''male''), (''height'', JFloat 175.5), (''weight'', JFloat 70),
              (''bmi'', JFloat 22.73), (''verdict'', JStr ''Normal weight'')])])"
  by code_simp


theorem persisted_value_fields_witness:
  "create_pateint (Some []) (example_pateint 175.5 70) =
     (Inr (JSONResponse 201 ''Pateint created successfully''),
      Some [(''P001'', example_record ''Delhi'')]) \<and>
   update_pateint no_str_numbers (Some [(''P001'', example_record ''Delhi'')]) ''P001''
       (only_city ''Pune'') =
     (Inr (JSONResponse 200 ''Pateint updated successfully''),
      Some [(''P001'', example_record ''Pune'')]) \<and>
   (\<exists>b s. view_pateint (Some [(''P001'', example_record ''Delhi'')]) ''P001'' =
      Inr [(''name'', JStr ''Harsh''), (''city'', JStr ''Delhi''), (''age'', JInt 30),
           (''gender'', JStr ''male''), (''height'', JFloat 175.5), (''weight'', JFloat 70),
           (''bmi'', JFloat b), (''verdict'', JStr s)]) \<and>
   (\<exists>v. view_pateint (Some [(''P001'', example_record ''Pune'')]) ''P001'' = Inr v \<and>
      map fst v = [''name'', ''city'', ''age'', ''gender'', ''height'', ''weight'', ''bmi'',
                   ''verdict''])"
proof -
  have c: "create_pateint (Some []) (example_pateint 175.5 70) =
     (Inr (JSONResponse 201 ''Pateint created successfully''),
      Some [(''P001'', example_record ''Delhi'')])"
    by code_simp
  have u: "update_pateint no_str_numbers (Some [(''P001'', example_record ''Delhi'')]) ''P001''
       (only_city ''Pune'') =
     (Inr (JSONResponse 200 ''Pateint updated successfully''),
      Some [(''P001'', example_record ''Pune'')])"
    by code_simp
  have "\<exists>b s. view_pateint (Some [(''P001'', example_record ''Delhi'')]) ''P001'' =
      Inr [(''name'', JStr ''Harsh''), (''city'', JStr ''Delhi''), (''age'', JInt 30),
           (''gender'', JStr ''male''), (''height'', JFloat 175.5), (''weight'', JFloat 70),
           (''bmi'', JFloat b), (''verdict'', JStr s)]"
    using persisted_value_fields [THEN conjunct1, rule_format, OF c]
    by (auto simp: example_pateint_def)
  moreover have "\<exists>v. view_pateint (Some [(''P001'', example_record ''Pune'')]) ''P001'' = Inr v \<and>
      map fst v = [''name'', ''city'', ''age'', ''gender'', ''height'', ''weight'', ''bmi'',
                   ''verdict'']"
    using persisted_value_fields [THEN conjunct2, rule_format, OF u] by auto
  ultimately show ?thesis using c u by blast
qed

section \<open>Failures of an update\<close>

lemma update_pateint_Inl: "update_pateint L f i u = (Inl e, f') \<Longrightarrow> f' = f"
  unfolding update_pateint_def load_data_def save_data_def Let_def
  by (auto split: option.splits sum.splits)

lemma PUT_edit_Inl: "PUT_edit L f i body = (Inl e, f') \<Longrightarrow> f' = f"
  unfolding PUT_edit_def using update_pateint_Inl by (auto split: sum.splits)

text \<open>
  Claim C5, as the code has it. Of a request \<^verbatim>\<open>PUT /edit/{id}\<close>: whenever it fails, the
  file is left as it was; a body that fails the model \<^verbatim>\<open>PateintUpdate\<close> is answered 422
  before the handler runs; with a valid body and a readable file, an id that is not
  in the store gives 404; and when the merged record fails the validation of
  \<^verbatim>\<open>Pateint\<close>, the \<^verbatim>\<open>ValidationError\<close> leaves the handler uncaught, which the
  framework answers with 500.
\<close>

theorem edit_failure_leaves_file:
  "(PUT_edit L f i body = (Inl e, f') \<longrightarrow> f' = f) \<and>
   (PateintUpdate_init L body = Inl e \<longrightarrow>
      PUT_edit L f i body = (Inl RequestValidationError, f) \<and>
      status_code RequestValidationError = 422) \<and>
   (PateintUpdate_init L body = Inr u \<and> f = Some data \<and> map_of data i = None \<longrightarrow>
      PUT_edit L f i body = (Inl (HTTPException 404), f)) \<and>
   (PateintUpdate_init L body = Inr u \<and> f = Some data \<and> map_of data i = Some x \<and>
    Pateint_init L (AList.update ''id'' (JStr i) (merge_items x (model_dump_exclude_unset u)))
      = Inl e \<longrightarrow>
      PUT_edit L f i body = (Inl ValidationError, f) \<and> status_code ValidationError = 500)"
proof (intro conjI impI)
  assume "PUT_edit L f i body = (Inl e, f')"
  then show "f' = f" by (rule PUT_edit_Inl)
next
  assume "PateintUpdate_init L body = Inl e"
  then show "PUT_edit L f i body = (Inl RequestValidationError, f)"
    by (simp add: PUT_edit_def)
next
  show "status_code RequestValidationError = 422" by simp
next
  assume "PateintUpdate_init L body = Inr u \<and> f = Some data \<and> map_of data i = None"
  then show "PUT_edit L f i body = (Inl (HTTPException 404), f)"
    by (simp add: PUT_edit_def update_pateint_def load_data_def)
next
  assume a: "PateintUpdate_init L body = Inr u \<and> f = Some data \<and> map_of data i = Some x \<and>
    Pateint_init L (AList.update ''id'' (JStr i) (merge_items x (model_dump_exclude_unset u)))
      = Inl e"
  then have "e = ValidationError" using Pateint_init_Inl by blast
  with a show "PUT_edit L f i body = (Inl ValidationError, f)"
    by (simp add: PUT_edit_def update_pateint_def load_data_def Let_def)
next
  show "status_code ValidationError = 500" by simp
qed

text \<open>
  A stored record without a weight, and an update of its city: the merged record
  fails validation, and the answer is the uncaught \<^verbatim>\<open>ValidationError\<close>, a 500.
\<close>

theorem edit_invalid_stored_counterexample:
  "PUT_edit no_str_numbers (Some [(''P001'', incomplete_record)]) ''P001''
       [(''city'', JStr ''Pune'')] =
     (Inl ValidationError, Some [(''P001'', incomplete_record)]) \<and>
   status_code ValidationError = 500"
  by code_simp


theorem edit_failure_leaves_file_witness:
  "PUT_edit no_str_numbers (Some [(''P001'', incomplete_record)]) ''P001''
       [(''city'', JStr ''Pune'')] =
     (Inl ValidationError, Some [(''P001'', incomplete_record)]) \<and>
   PUT_edit no_str_numbers (Some [(''P001'', example_record ''Delhi'')]) ''P001''
       [(''gender'', JStr ''other'')] =
     (Inl RequestValidationError, Some [(''P001'', example_record ''Delhi'')]) \<and>
   PUT_edit no_str_numbers (Some [(''P001'', example_record ''Delhi'')]) ''P002''
       [(''city'', JStr ''Pune'')] =
     (Inl (HTTPException 404), Some [(''P001'', example_record ''Delhi'')])"
proof -
  have u: "PateintUpdate_init no_str_numbers [(''city'', JStr ''Pune'')] = Inr (only_city ''Pune'')"
    by code_simp
  have g: "PateintUpdate_init no_str_numbers [(''gender'', JStr ''other'')] = Inl ValidationError"
    by code_simp
  have a: "map_of [(''P001'', example_record ''Delhi'')] ''P002'' = None"
    by simp
  have i: "map_of [(''P001'', incomplete_record)] ''P001'' = Some incomplete_record"
    by simp
  have m: "Pateint_init no_str_numbers (AList.update ''id'' (JStr ''P001'')
       (merge_items incomplete_record (model_dump_exclude_unset (only_city ''Pune''))))
     = Inl ValidationError"
    by code_simp
  have "PUT_edit no_str_numbers (Some [(''P001'', incomplete_record)]) ''P001''
       [(''city'', JStr ''Pune'')] =
     (Inl ValidationError, Some [(''P001'', incomplete_record)])"
    using edit_failure_leaves_file [THEN conjunct2, THEN conjunct2, THEN conjunct2, rule_format,
        OF conjI [OF u conjI [OF refl conjI [OF i m]]]]
    by (rule conjunct1)
  moreover have "PUT_edit no_str_numbers (Some [(''P001'', example_record ''Delhi'')]) ''P001''
       [(''gender'', JStr ''other'')] =
     (Inl RequestValidationError, Some [(''P001'', example_record ''Delhi'')])"
    using edit_failure_leaves_file [THEN conjunct2, THEN conjunct1, rule_format, OF g]
    by (rule conjunct1)
  moreover have "PUT_edit no_str_numbers (Some [(''P001'', example_record ''Delhi'')]) ''P002''
       [(''city'', JStr ''Pune'')] =
     (Inl (HTTPException 404), Some [(''P001'', example_record ''Delhi'')])"
    using edit_failure_leaves_file [THEN conjunct2, THEN conjunct2, THEN conjunct1, rule_format,
        OF conjI [OF u conjI [OF refl a]]] .
  ultimately show ?thesis by (intro conjI)
qed

section \<open>Values that are not positive\<close>

lemma PateintUpdate_init_Inr:
  "PateintUpdate_init L d = Inr u \<longleftrightarrow>
     optional d ''name'' str_validator = Some (name_upd u) \<and>
     optional d ''city'' str_validator = Some (city_upd u) \<and>
     optional d ''age'' (\<lambda>v. gt0 (int_validator L v)) = Some (age_upd u) \<and>
     optional d ''gender'' gender_validator = Some (gender_upd u) \<and>
     optional d ''height'' (\<lambda>v. gt0 (float_validator L v)) = Some (height_upd u) \<and>
     optional d ''weight'' (\<lambda>v. gt0 (float_validator L v)) = Some (weight_upd u)"
  unfolding PateintUpdate_init_def by (cases u) (auto split: option.splits)

lemma optional_rejects:
  assumes "map_of d k = Some v" and "v \<noteq> JNull" and "val v = None"
  shows "optional d k val = None"
  using assms by (cases v) (simp_all add: optional_def)

lemma PUT_edit_rejects:
  assumes "optional body ''age'' (\<lambda>v. gt0 (int_validator L v)) = None \<or>
           optional body ''height'' (\<lambda>v. gt0 (float_validator L v)) = None \<or>
           optional body ''weight'' (\<lambda>v. gt0 (float_validator L v)) = None"
  shows "PUT_edit L f i body = (Inl RequestValidationError, f)"
proof (cases "PateintUpdate_init L body")
  case (Inl e)
  then show ?thesis by (simp add: PUT_edit_def)
next
  case (Inr u)
  then have False using assms unfolding PateintUpdate_init_Inr by auto
  then show ?thesis ..
qed

lemma int_not_positive_rejected:
  assumes "map_of body k = Some v" and "int_validator L v = Some n" and "n \<le> 0"
  shows "optional body k (\<lambda>v. gt0 (int_validator L v)) = None"
proof (rule optional_rejects [OF assms(1)])
  show "v \<noteq> JNull" using assms(2) by auto
  show "gt0 (int_validator L v) = None" using assms(2,3) by (simp add: gt0_def)
qed

lemma float_not_positive_rejected:
  assumes "map_of body k = Some v" and "float_validator L v = Some r" and "r \<le> 0"
  shows "optional body k (\<lambda>v. gt0 (float_validator L v)) = None"
proof (rule optional_rejects [OF assms(1)])
  show "v \<noteq> JNull" using assms(2) by auto
  show "gt0 (float_validator L v) = None" using assms(2,3) by (simp add: gt0_def)
qed

lemma POST_create_accepts:
  assumes "g \<in> set genders" and "0 < h" and "0 < w"
  shows "\<exists>v. POST_create L (Some []) (fields_body i n c a g h w) =
           (Inr (JSONResponse 201 ''Pateint created successfully''), Some [(i, v)])"
proof -
  let ?p = "\<lparr>id_str = i, name = n, city = c, age = a, gender = g, height = h, weight = w\<rparr>"
  have p: "Pateint_init L (fields_body i n c a g h w) = Inr ?p"
    using assms
    by (simp add: Pateint_init_def fields_body_def required_def gender_validator_def gt0_def)
  have "0 < height ?p" using assms(2) by simp
  then obtain v where v: "model_dump_exclude_id ?p = Inr v"
    using model_dump_total by blast
  have "POST_create L (Some []) (fields_body i n c a g h w) =
           (Inr (JSONResponse 201 ''Pateint created successfully''), Some [(i, v)])"
    by (simp add: POST_create_def p create_pateint_def load_data_def save_data_def v)
  then show ?thesis ..
qed

text \<open>
  Claim C10. A request \<^verbatim>\<open>PUT /edit/{id}\<close> whose body gives age, height or weight a
  value that is not positive is rejected with 422 by the validation of the body,
  whatever the file holds and whether it can be read at all, and the file is left as
  it was; while \<^verbatim>\<open>POST /create\<close> accepts a record of any age, the model \<^verbatim>\<open>Pateint\<close>
  having no bound on it.
\<close>

theorem edit_rejects_nonpositive:
  assumes "(\<exists>v n. map_of body ''age'' = Some v \<and> int_validator L v = Some n \<and> n \<le> 0) \<or>
           (\<exists>v r. map_of body ''height'' = Some v \<and> float_validator L v = Some r \<and> r \<le> 0) \<or>
           (\<exists>v r. map_of body ''weight'' = Some v \<and> float_validator L v = Some r \<and> r \<le> 0)"
  shows "PUT_edit L f i body = (Inl RequestValidationError, f) \<and>
         status_code RequestValidationError = 422 \<and>
         (\<forall>a. \<exists>v. POST_create L (Some [])
                  (fields_body ''P001'' ''Harsh'' ''Delhi'' a ''male'' 175.5 70) =
            (Inr (JSONResponse 201 ''Pateint created successfully''), Some [(''P001'', v)]))"
proof -
  have "optional body ''age'' (\<lambda>v. gt0 (int_validator L v)) = None \<or>
           optional body ''height'' (\<lambda>v. gt0 (float_validator L v)) = None \<or>
           optional body ''weight'' (\<lambda>v. gt0 (float_validator L v)) = None"
    using assms
    by (elim disjE exE conjE)
      (simp_all add: int_not_positive_rejected float_not_positive_rejected)
  then have "PUT_edit L f i body = (Inl RequestValidationError, f)"
    by (rule PUT_edit_rejects)
  moreover have "\<exists>v. POST_create L (Some [])
                  (fields_body ''P001'' ''Harsh'' ''Delhi'' a ''male'' 175.5 70) =
            (Inr (JSONResponse 201 ''Pateint created successfully''), Some [(''P001'', v)])" for a
    by (rule POST_create_accepts) (simp_all add: genders_def)
  ultimately show ?thesis by simp
qed

theorem edit_rejects_nonpositive_witness:
  "map_of [(''age'', JInt 0)] ''age'' = Some (JInt 0) \<and>
   int_validator no_str_numbers (JInt 0) = Some 0 \<and>
   PUT_edit no_str_numbers None ''P001'' [(''age'', JInt 0)] = (Inl RequestValidationError, None) \<and>
   PUT_edit no_str_numbers (Some [(''P001'', example_record ''Delhi'')]) ''P001''
       [(''city'', JStr ''Pune''), (''weight'', JFloat (- 70))] =
     (Inl RequestValidationError, Some [(''P001'', example_record ''Delhi'')]) \<and>
   (\<exists>v. POST_create no_str_numbers (Some [])
       (fields_body ''P001'' ''Harsh'' ''Delhi'' (- 5) ''male'' 175.5 70) =
     (Inr (JSONResponse 201 ''Pateint created successfully''), Some [(''P001'', v)]))"
proof -
  have a: "map_of [(''age'', JInt 0)] ''age'' = Some (JInt 0) \<and>
      int_validator no_str_numbers (JInt 0) = Some 0 \<and> (0::int) \<le> 0"
    by simp
  have w: "map_of [(''city'', JStr ''Pune''), (''weight'', JFloat (- 70))] ''weight''
        = Some (JFloat (- 70)) \<and>
      float_validator no_str_numbers (JFloat (- 70)) = Some (- 70) \<and> (- 70::rat) \<le> 0"
    by simp
  have A: "(\<exists>v n. map_of [(''age'', JInt 0)] ''age'' = Some v \<and>
              int_validator no_str_numbers v = Some n \<and> n \<le> 0) \<or>
           (\<exists>v r. map_of [(''age'', JInt 0)] ''height'' = Some v \<and>
              float_validator no_str_numbers v = Some r \<and> r \<le> 0) \<or>
           (\<exists>v r. map_of [(''age'', JInt 0)] ''weight'' = Some v \<and>
              float_validator no_str_numbers v = Some r \<and> r \<le> 0)"
    using a by blast
  have W: "(\<exists>v n. map_of [(''city'', JStr ''Pune''), (''weight'', JFloat (- 70))] ''age'' = Some v \<and>
              int_validator no_str_numbers v = Some n \<and> n \<le> 0) \<or>
           (\<exists>v r. map_of [(''city'', JStr ''Pune''), (''weight'', JFloat (- 70))] ''height'' = Some v \<and>
              float_validator no_str_numbers v = Some r \<and> r \<le> 0) \<or>
           (\<exists>v r. map_of [(''city'', JStr ''Pune''), (''weight'', JFloat (- 70))] ''weight'' = Some v \<and>
              float_validator no_str_numbers v = Some r \<and> r \<le> 0)"
    using w by blast
  note tA = edit_rejects_nonpositive [OF A, of None "''P001''"]
  note tW = edit_rejects_nonpositive [OF W, of "Some [(''P001'', example_record ''Delhi'')]" "''P001''"]
  show ?thesis
  proof (intro conjI)
    show "map_of [(''age'', JInt 0)] ''age'' = Some (JInt 0)"
      and "int_validator no_str_numbers (JInt 0) = Some 0"
      using a by blast+
    show "PUT_edit no_str_numbers None ''P001'' [(''age'', JInt 0)] = (Inl RequestValidationError, None)"
      using tA by (rule conjunct1)
    show "PUT_edit no_str_numbers (Some [(''P001'', example_record ''Delhi'')]) ''P001''
       [(''city'', JStr ''Pune''), (''weight'', JFloat (- 70))] =
     (Inl RequestValidationError, Some [(''P001'', example_record ''Delhi'')])"
      using tW by (rule conjunct1)
    show "\<exists>v. POST_create no_str_numbers (Some [])
       (fields_body ''P001'' ''Harsh'' ''Delhi'' (- 5) ''male'' 175.5 70) =
     (Inr (JSONResponse 201 ''Pateint created successfully''), Some [(''P001'', v)])"
      using tA [THEN conjunct2, THEN conjunct2, rule_format, of "- 5"] .
  qed
qed

section \<open>Merging an update\<close>













section \<open>The sorted view\<close>

lemma keys_of_numbers:
  assumes "\<forall>x \<in> set xs. \<exists>v. map_of x k = Some v \<and> is_number v"
  shows "\<exists>ks. keys_of xs k = Inr ks \<and> list_all is_number ks \<and> length ks = length xs \<and>
           map number_of ks = map (field_number k) xs"
  using assms
proof (induction xs)
  case Nil
  then show ?case by simp
next
  case (Cons x xs)
  then obtain ks where ks: "keys_of xs k = Inr ks" "list_all is_number ks"
      "length ks = length xs" "map number_of ks = map (field_number k) xs"
    by auto
  from Cons.prems obtain v where v: "map_of x k = Some v" "is_number v"
    by auto
  have "keys_of (x # xs) k = Inr (v # ks)"
    by (simp add: ks(1) v(1))
  moreover have "map number_of (v # ks) = map (field_number k) (x # xs)"
    by (simp add: ks(4) field_number_def v(1))
  ultimately show ?case using ks(2,3) v(2) by auto
qed

lemma keys_of_Inl: "keys_of xs k = Inl e \<Longrightarrow> e = KeyError"
  by (induction xs arbitrary: e) (auto split: option.splits sum.splits)

lemma keys_of_missing:
  assumes "\<exists>x \<in> set xs. map_of x k = None"
  shows "keys_of xs k = Inl KeyError"
  using assms
proof (induction xs)
  case Nil
  then show ?case by simp
next
  case (Cons x xs)
  show ?case
  proof (cases "map_of x k")
    case None
    then show ?thesis by simp
  next
    case (Some v)
    then have "\<exists>y \<in> set xs. map_of y k = None" using Cons.prems by auto
    then have "keys_of xs k = Inl KeyError" by (rule Cons.IH)
    then show ?thesis by (simp add: Some)
  qed
qed

lemma insort_key_decorated:
  "insort_key fst (f x, x) (map (\<lambda>y. (f y, y)) ys) = map (\<lambda>y. (f y, y)) (insort_key f x ys)"
  by (induction ys) auto

lemma sort_key_decorated:
  "sort_key fst (map (\<lambda>y. (f y, y)) xs) = map (\<lambda>y. (f y, y)) (sort_key f xs)"
  by (induction xs) (auto simp: insort_key_decorated)

lemma zip_decorated: "zip (map f xs) xs = map (\<lambda>y. (f y, y)) xs"
  by (induction xs) auto

lemma stable_sorted_asc: "stable_sorted (map f xs) xs False = sort_key f xs"
  by (simp add: stable_sorted_def zip_decorated sort_key_decorated comp_def)

lemma stable_sorted_desc: "stable_sorted (map f xs) xs True = rev (sort_key f (rev xs))"
proof -
  have "rev (zip (map f xs) xs) = map (\<lambda>y. (f y, y)) (rev xs)"
    by (simp add: zip_decorated rev_map)
  then show ?thesis
    by (simp add: stable_sorted_def sort_key_decorated comp_def)
qed

lemma short_list_sorted:
  assumes "length xs < 2"
  shows "sort_key f xs = xs" and "rev (sort_key f (rev xs)) = xs"
proof -
  have "xs = [] \<or> (\<exists>x. xs = [x])"
    using assms by (cases xs) (auto simp: length_Suc_conv)
  then show "sort_key f xs = xs" and "rev (sort_key f (rev xs)) = xs"
    by auto
qed

lemma py_sorted_numbers:
  assumes "\<forall>x \<in> set xs. \<exists>v. map_of x k = Some v \<and> is_number v"
  shows "py_sorted xs k reverse =
           Inr (if reverse then rev (sort_key (field_number k) (rev xs))
                else sort_key (field_number k) xs)"
proof -
  obtain ks where ks: "keys_of xs k = Inr ks" "list_all is_number ks" "length ks = length xs"
      "map number_of ks = map (field_number k) xs"
    using keys_of_numbers [OF assms] by blast
  show ?thesis
  proof (cases "length xs < 2")
    case True
    then show ?thesis
      using short_list_sorted [OF True, of "field_number k"]
      by (simp add: py_sorted_def ks(1,3))
  next
    case False
    then show ?thesis
      by (simp add: py_sorted_def ks stable_sorted_asc stable_sorted_desc)
  qed
qed

lemma sort_patients_numbers:
  assumes "sort_by \<in> set valid_fields" and "order = ''asc'' \<or> order = ''desc''"
    and "\<forall>x \<in> set (map snd data). \<exists>v. map_of x sort_by = Some v \<and> is_number v"
  shows "sort_patients (Some data) sort_by order =
           Inr (if order = ''desc'' then rev (sort_key (field_number sort_by) (rev (map snd data)))
                else sort_key (field_number sort_by) (map snd data))"
  using assms(1,2)
  by (auto simp: sort_patients_def load_data_def py_sorted_numbers [OF assms(3)])

lemma sort_patients_missing:
  assumes "sort_by \<in> set valid_fields" and "order = ''asc'' \<or> order = ''desc''"
    and "\<exists>x \<in> set (map snd data). map_of x sort_by = None"
  shows "sort_patients (Some data) sort_by order = Inl (HTTPException 500)"
  using assms(1,2)
  by (auto simp: sort_patients_def load_data_def py_sorted_def keys_of_missing [OF assms(3)])

lemma sort_patients_invalid:
  assumes "sort_by \<notin> set valid_fields \<or> (order \<noteq> ''asc'' \<and> order \<noteq> ''desc'')"
  shows "sort_patients f sort_by order = Inl (HTTPException 400)"
  using assms by (auto simp: sort_patients_def)


text \<open>
  Claim C6, as the code has it. With a field among height, weight and bmi and an
  order among asc and desc: when every stored record holds a number under the field,
  \<^verbatim>\<open>sort_patients\<close> returns the stored records, each once, sorted by the number they
  hold under the field, ascending for asc and descending for desc, records of equal
  numbers in their order of storage; when a stored record lacks the field, it fails
  with 500. With any other field or order it fails with 400, whatever the file holds
  and whether it can be read at all.
\<close>

theorem sort_patients_stable:
  "(sort_by \<in> set valid_fields \<and> (order = ''asc'' \<or> order = ''desc'') \<and>
    (\<forall>x \<in> set (map snd data). \<exists>v. map_of x sort_by = Some v \<and> is_number v) \<longrightarrow>
      (\<exists>ys. sort_patients (Some data) sort_by order = Inr ys \<and>
         mset ys = mset (map snd data) \<and>
         (order = ''asc'' \<longrightarrow> sorted (map (field_number sort_by) ys)) \<and>
         (order = ''desc'' \<longrightarrow> sorted (rev (map (field_number sort_by) ys))) \<and>
         (\<forall>r. filter (\<lambda>x. field_number sort_by x = r) ys =
               filter (\<lambda>x. field_number sort_by x = r) (map snd data)))) \<and>
   (sort_by \<in> set valid_fields \<and> (order = ''asc'' \<or> order = ''desc'') \<and>
    (\<exists>x \<in> set (map snd data). map_of x sort_by = None) \<longrightarrow>
      sort_patients (Some data) sort_by order = Inl (HTTPException 500)) \<and>
   (sort_by \<notin> set valid_fields \<or> (order \<noteq> ''asc'' \<and> order \<noteq> ''desc'') \<longrightarrow>
      sort_patients f sort_by order = Inl (HTTPException 400))"
proof (intro conjI impI)
  assume a: "sort_by \<in> set valid_fields \<and> (order = ''asc'' \<or> order = ''desc'') \<and>
    (\<forall>x \<in> set (map snd data). \<exists>v. map_of x sort_by = Some v \<and> is_number v)"
  let ?f = "field_number sort_by"
  let ?xs = "map snd data"
  let ?ys = "if order = ''desc'' then rev (sort_key ?f (rev ?xs)) else sort_key ?f ?xs"
  have r: "sort_patients (Some data) sort_by order = Inr ?ys"
    using a by (intro sort_patients_numbers) blast+
  have m: "mset ?ys = mset ?xs" by simp
  have asc: "sorted (map ?f ?ys)" if "order = ''asc''"
    using that by simp
  have desc: "sorted (rev (map ?f ?ys))" if "order = ''desc''"
    using that by (simp add: rev_map [symmetric])
  have st: "filter (\<lambda>x. ?f x = r) ?ys = filter (\<lambda>x. ?f x = r) ?xs" for r
  proof (cases "order = ''desc''")
    case True
    have "filter (\<lambda>x. ?f x = r) (rev (sort_key ?f (rev ?xs)))
        = rev (filter (\<lambda>x. ?f x = r) (sort_key ?f (rev ?xs)))"
      by (simp only: rev_filter)
    also have "\<dots> = rev (filter (\<lambda>x. ?f x = r) (rev ?xs))"
      by (simp only: sort_key_stable)
    also have "\<dots> = filter (\<lambda>x. ?f x = r) ?xs"
      by (simp only: rev_filter rev_rev_ident)
    finally show ?thesis using True by simp
  next
    case False
    then show ?thesis by (simp add: sort_key_stable)
  qed
  show "\<exists>ys. sort_patients (Some data) sort_by order = Inr ys \<and>
         mset ys = mset (map snd data) \<and>
         (order = ''asc'' \<longrightarrow> sorted (map (field_number sort_by) ys)) \<and>
         (order = ''desc'' \<longrightarrow> sorted (rev (map (field_number sort_by) ys))) \<and>
         (\<forall>r. filter (\<lambda>x. field_number sort_by x = r) ys =
               filter (\<lambda>x. field_number sort_by x = r) (map snd data))"
    using r m asc desc st by blast
next
  assume "sort_by \<in> set valid_fields \<and> (order = ''asc'' \<or> order = ''desc'') \<and>
    (\<exists>x \<in> set (map snd data). map_of x sort_by = None)"
  then show "sort_patients (Some data) sort_by order = Inl (HTTPException 500)"
    by (intro sort_patients_missing) blast+
next
  assume "sort_by \<notin> set valid_fields \<or> (order \<noteq> ''asc'' \<and> order \<noteq> ''desc'')"
  then show "sort_patients f sort_by order = Inl (HTTPException 400)"
    by (rule sort_patients_invalid)
qed

text \<open>
  A file whose record holds the six declared fields alone cannot be sorted by bmi.
\<close>

theorem sort_six_fields_counterexample:
  "sort_patients (Some [(''P001'', six_fields_record)]) ''bmi'' ''asc'' = Inl (HTTPException 500)"
  by code_simp

theorem sort_patients_stable_witness:
  "sort_patients (Some heights_store) ''height'' ''asc'' =
     Inr [named_height ''A'' 150, named_height ''C'' 160, named_height ''B'' 180,
          named_height ''D'' 180] \<and>
   sort_patients (Some heights_store) ''height'' ''desc'' =
     Inr [named_height ''B'' 180, named_height ''D'' 180, named_height ''C'' 160,
          named_height ''A'' 150] \<and>
   (\<exists>ys. sort_patients (Some heights_store) ''height'' ''desc'' = Inr ys \<and>
      sorted (rev (map (field_number ''height'') ys)) \<and>
      filter (\<lambda>x. field_number ''height'' x = 180) ys =
        filter (\<lambda>x. field_number ''height'' x = 180) (map snd heights_store)) \<and>
   sort_patients (Some [(''P001'', six_fields_record)]) ''bmi'' ''desc'' = Inl (HTTPException 500) \<and>
   sort_patients None ''name'' ''asc'' = Inl (HTTPException 400)"
proof -
  have asc: "sort_patients (Some heights_store) ''height'' ''asc'' =
     Inr [named_height ''A'' 150, named_height ''C'' 160, named_height ''B'' 180,
          named_height ''D'' 180]"
    by code_simp
  have desc: "sort_patients (Some heights_store) ''height'' ''desc'' =
     Inr [named_height ''B'' 180, named_height ''D'' 180, named_height ''C'' 160,
          named_height ''A'' 150]"
    by code_simp
  have h: "''height'' \<in> set valid_fields \<and> (''desc'' = ''asc'' \<or> ''desc'' = ''desc'') \<and>
    (\<forall>x \<in> set (map snd heights_store). \<exists>v. map_of x ''height'' = Some v \<and> is_number v)"
    by (simp add: valid_fields_def heights_store_def named_height_def)
  have b: "''bmi'' \<in> set valid_fields \<and> (''desc'' = ''asc'' \<or> ''desc'' = ''desc'') \<and>
    (\<exists>x \<in> set (map snd [(''P001'', six_fields_record)]). map_of x ''bmi'' = None)"
    by (simp add: valid_fields_def six_fields_record_def)
  have n: "''name'' \<notin> set valid_fields \<or> (''asc'' \<noteq> ''asc'' \<and> ''asc'' \<noteq> ''desc'')"
    by (simp add: valid_fields_def)
  have "\<exists>ys. sort_patients (Some heights_store) ''height'' ''desc'' = Inr ys \<and>
      sorted (rev (map (field_number ''height'') ys)) \<and>
      filter (\<lambda>x. field_number ''height'' x = 180) ys =
        filter (\<lambda>x. field_number ''height'' x = 180) (map snd heights_store)"
    using sort_patients_stable [THEN conjunct1, rule_format, OF h] by blast
  moreover have "sort_patients (Some [(''P001'', six_fields_record)]) ''bmi'' ''desc''
      = Inl (HTTPException 500)"
    using sort_patients_stable [THEN conjunct2, THEN conjunct1, rule_format, OF b] .
  moreover have "sort_patients None ''name'' ''asc'' = Inl (HTTPException 400)"
    using sort_patients_stable [THEN conjunct2, THEN conjunct2, rule_format, OF n] .
  ultimately show ?thesis using asc desc by (intro conjI)
qed

end
